theory Spec2Isabelle
  imports Main "HOL-Library.Word" "HOL-Library.Sublist"
begin

section \<open>Strings, bytes and JavaScript errors\<close>

text \<open>
  A JavaScript string is modelled as a \<^typ>\<open>string\<close>: a list of code units, restricted
  to the code units below 256 (Latin-1). A \<open>Uint8Array\<close> is a list of 8-bit words.
  A thrown \<open>Error\<close> is a record of its constructor name and its message.
\<close>

type_synonym byte = "8 word"

record js_error =
  ename :: string
  emessage :: string

definition Error :: "string \<Rightarrow> js_error" where
  "Error m = \<lparr>ename = ''Error'', emessage = m\<rparr>"

text \<open>Truthiness of an optional string: \<open>undefined\<close>, \<open>null\<close> and \<open>""\<close> are falsy.\<close>

definition truthy :: "string option \<Rightarrow> bool" where
  "truthy v = (case v of None \<Rightarrow> False | Some s \<Rightarrow> s \<noteq> [])"

text \<open>\<open>a || d\<close> on an optional string with a string default.\<close>

definition or_default :: "string option \<Rightarrow> string \<Rightarrow> string" where
  "or_default v d = (case v of None \<Rightarrow> d | Some s \<Rightarrow> if s = [] then d else s)"

text \<open>
  White space as \<open>\s\<close> and \<open>String.prototype.trim\<close> see it, among the code units below
  256: TAB, LF, VT, FF, CR, SPACE and NBSP.
\<close>

definition is_space :: "char \<Rightarrow> bool" where
  "is_space c = (c \<in> set [CHR 0x09, CHR 0x0A, CHR 0x0B, CHR 0x0C, CHR 0x0D, CHR 0x20, CHR 0xA0])"

text \<open>
  \<open>toLowerCase\<close> on one code unit below 256: the letters A to Z, and the capital letters
  of Latin-1 (0xC0 to 0xDE, without the multiplication sign 0xD7), move to their small
  letters. The \<open>i\<close> flag of a regular expression lets a letter of the pattern match the
  same code units.
\<close>

definition upper_chars :: "char list" where
  "upper_chars = ''ABCDEFGHIJKLMNOPQRSTUVWXYZ'' @
     [CHR 0xC0, CHR 0xC1, CHR 0xC2, CHR 0xC3, CHR 0xC4, CHR 0xC5, CHR 0xC6, CHR 0xC7,
      CHR 0xC8, CHR 0xC9, CHR 0xCA, CHR 0xCB, CHR 0xCC, CHR 0xCD, CHR 0xCE, CHR 0xCF,
      CHR 0xD0, CHR 0xD1, CHR 0xD2, CHR 0xD3, CHR 0xD4, CHR 0xD5, CHR 0xD6, CHR 0xD8,
      CHR 0xD9, CHR 0xDA, CHR 0xDB, CHR 0xDC, CHR 0xDD, CHR 0xDE]"

definition lower_chars :: "char list" where
  "lower_chars = ''abcdefghijklmnopqrstuvwxyz'' @
     [CHR 0xE0, CHR 0xE1, CHR 0xE2, CHR 0xE3, CHR 0xE4, CHR 0xE5, CHR 0xE6, CHR 0xE7,
      CHR 0xE8, CHR 0xE9, CHR 0xEA, CHR 0xEB, CHR 0xEC, CHR 0xED, CHR 0xEE, CHR 0xEF,
      CHR 0xF0, CHR 0xF1, CHR 0xF2, CHR 0xF3, CHR 0xF4, CHR 0xF5, CHR 0xF6, CHR 0xF8,
      CHR 0xF9, CHR 0xFA, CHR 0xFB, CHR 0xFC, CHR 0xFD, CHR 0xFE]"

definition to_lower :: "char \<Rightarrow> char" where
  "to_lower c = (case map_of (zip upper_chars lower_chars) c of None \<Rightarrow> c | Some l \<Rightarrow> l)"

definition toLowerCase :: "string \<Rightarrow> string" where
  "toLowerCase s = map to_lower s"

text \<open>Decimal rendering of a number inside a template string.\<close>

definition digit_char :: "nat \<Rightarrow> char" where
  "digit_char d = ''0123456789'' ! (d mod 10)"

function string_of_nat :: "nat \<Rightarrow> string" where
  "string_of_nat n =
     (if n < 10 then [digit_char n] else string_of_nat (n div 10) @ [digit_char (n mod 10)])"
  by pat_completeness auto
termination
  by (relation "measure id") auto

declare string_of_nat.simps [simp del]

section \<open>background.js: file names\<close>

text \<open>
  \<^verbatim>\<open>
  function sanitizeFilename(filename) {
    return filename
      .replace(/[<>:"/\\|?*]/g, '_')  // Replace invalid characters
      .replace(/\s+/g, ' ')          // Normalize whitespace
      .replace(/^\.+/, '')           // Remove leading dots
      .trim()                        // Remove leading/trailing whitespace
      .substring(0, 255);            // Limit length
  }
  \<close>
\<close>

definition invalid_chars :: "char list" where
  "invalid_chars =
     [CHR ''<'', CHR ''>'', CHR '':'', CHR 0x22, CHR ''/'', CHR 0x5C, CHR ''|'', CHR ''?'',
      CHR ''*'']"

definition replace_invalid :: "string \<Rightarrow> string" where
  "replace_invalid s = map (\<lambda>c. if c \<in> set invalid_chars then CHR ''_'' else c) s"

function collapse_ws :: "string \<Rightarrow> string" where
  "collapse_ws [] = []"
| "collapse_ws (c # cs) =
     (if is_space c then CHR '' '' # collapse_ws (dropWhile is_space cs)
      else c # collapse_ws cs)"
  by pat_completeness auto
termination
  by (relation "measure length") (auto simp: less_Suc_eq_le length_dropWhile_le)

definition strip_leading_dots :: "string \<Rightarrow> string" where
  "strip_leading_dots s = dropWhile (\<lambda>c. c = CHR ''.'') s"

definition trim :: "string \<Rightarrow> string" where
  "trim s = rev (dropWhile is_space (rev (dropWhile is_space s)))"

definition sanitizeFilename :: "string \<Rightarrow> string" where
  "sanitizeFilename filename =
     take 255 (trim (strip_leading_dots (collapse_ws (replace_invalid filename))))"

section \<open>background.js: base64 of the converted audio\<close>

text \<open>
  \<open>btoa\<close> is the platform's base64 encoder (RFC 4648, with padding) of a binary string;
  it is not code of the repository and is written out here so that the model runs.
\<close>

definition b64_alphabet :: string where
  "b64_alphabet = ''ABCDEFGHIJKLMNOPQRSTUVWXYZabcdefghijklmnopqrstuvwxyz0123456789+/''"

definition b64_char :: "nat \<Rightarrow> char" where
  "b64_char n = b64_alphabet ! (n mod 64)"

fun btoa :: "string \<Rightarrow> string" where
  "btoa [] = []"
| "btoa [a] =
     (let n = (of_char a :: nat) * 65536
      in [b64_char (n div 262144), b64_char (n div 4096), CHR ''='', CHR ''=''])"
| "btoa [a, b] =
     (let n = (of_char a :: nat) * 65536 + of_char b * 256
      in [b64_char (n div 262144), b64_char (n div 4096), b64_char (n div 64), CHR ''=''])"
| "btoa (a # b # c # rest) =
     (let n = (of_char a :: nat) * 65536 + of_char b * 256 + of_char c
      in [b64_char (n div 262144), b64_char (n div 4096), b64_char (n div 64), b64_char n]
         @ btoa rest)"

text \<open>\<open>String.fromCharCode(...bytes)\<close>: one code unit per byte.\<close>

definition fromCharCode :: "byte list \<Rightarrow> string" where
  "fromCharCode bs = map (\<lambda>b. char_of (unat b)) bs"

text \<open>\<open>bytes.subarray(begin, end)\<close>, both ends clamped to the array.\<close>

definition subarray :: "byte list \<Rightarrow> nat \<Rightarrow> nat \<Rightarrow> byte list" where
  "subarray bytes b e = take (e - b) (drop b bytes)"

definition chunkSize :: nat where
  "chunkSize = 8192"

text \<open>
  \<^verbatim>\<open>
  let binary = '';
  for (let i = 0; i < bytes.length; i += chunkSize) {
    const chunk = bytes.subarray(i, i + chunkSize);
    binary += String.fromCharCode(...chunk);
  }
  \<close>
\<close>

function chunk_loop :: "byte list \<Rightarrow> nat \<Rightarrow> string \<Rightarrow> string" where
  "chunk_loop bytes i binary =
     (if i < length bytes
      then chunk_loop bytes (i + chunkSize)
             (binary @ fromCharCode (subarray bytes i (i + chunkSize)))
      else binary)"
  by pat_completeness auto
termination
  by (relation "measure (\<lambda>(bytes, i, binary). length bytes - i)") (auto simp: chunkSize_def)

declare chunk_loop.simps [simp del]

definition base64_fast :: "byte list \<Rightarrow> string" where
  "base64_fast bytes = btoa (fromCharCode bytes)"

definition base64_chunked :: "byte list \<Rightarrow> string" where
  "base64_chunked bytes = btoa (chunk_loop bytes 0 [])"

text \<open>
  \<open>arrayBufferToBase64\<close>. The fast path is taken below 65536 bytes; the spread call
  there may raise a \<open>RangeError\<close> (engine argument limits), which the \<open>try\<close> catches
  and logs before falling through to the chunked path: \<open>fastThrows\<close> says whether it does.
\<close>

definition arrayBufferToBase64 :: "bool \<Rightarrow> byte list \<Rightarrow> string" where
  "arrayBufferToBase64 fastThrows bytes =
     (if length bytes < 65536 \<and> \<not> fastThrows then base64_fast bytes
      else base64_chunked bytes)"

section \<open>Messages between the service worker and the offscreen document\<close>

text \<open>
  A message is a plain object. \<open>m_type\<close> is its \<open>type\<close> field (\<open>None\<close> when it has
  none), \<open>m_ok\<close> the truthiness of \<open>ok\<close>, and \<open>m_audioBytes\<close> is \<open>Some xs\<close> exactly
  when \<open>audioBytes\<close> is an array, here of integers.
\<close>

record message =
  m_type :: "string option"
  m_ok :: bool
  m_filename :: "string option"
  m_audioBytes :: "int list option"
  m_error :: "string option"

text \<open>The job descriptor posted on the port named \<open>ffmpeg\<close>.\<close>

record request =
  r_type :: "string option"
  srcUrl :: "string option"
  outBase :: "string option"

text \<open>\<open>Array.from(out)\<close> on a \<open>Uint8Array\<close>, and \<open>new Uint8Array(array)\<close> on an array of
  integers (each element is taken modulo 256).\<close>

definition Array_from :: "byte list \<Rightarrow> int list" where
  "Array_from out = map uint out"

definition Uint8Array_from :: "int list \<Rightarrow> byte list" where
  "Uint8Array_from xs = map word_of_int xs"

section \<open>offscreen.js: the port listener that runs one job\<close>

text \<open>
  What the outside world answers during one job: the fetch of the source URL, the
  outcome of \<open>loadFFmpeg()\<close> and of the engine's file and exec calls. \<open>FetchResponded\<close>
  carries \<open>response.ok\<close>, the status, the status text and what \<open>arrayBuffer()\<close> gives.
\<close>

datatype fetch_outcome =
    FetchThrows js_error
  | FetchResponded bool nat string "js_error + byte list"

record job_env =
  fetchAudio :: "string \<Rightarrow> fetch_outcome"
  loadFFmpegResult :: "js_error + unit"
  writeFileResult :: "js_error + unit"
  execResult :: "js_error + unit"
  readFileResult :: "js_error + byte list"
  deleteFileThrows :: "string \<Rightarrow> bool"

text \<open>What the listener does, in order: calls on the engine, and messages sent either
  on the port (\<open>port.postMessage\<close>) or as a broadcast (\<open>chrome.runtime.sendMessage\<close>).\<close>

datatype effect =
    Fetch string
  | LoadFFmpeg
  | WriteFile string "byte list"
  | Exec "string list"
  | ReadFile string
  | DeleteFile string
  | PortPost message
  | Broadcast message
  | PortDisconnect

fun engine_interaction :: "effect \<Rightarrow> bool" where
  "engine_interaction LoadFFmpeg = True"
| "engine_interaction (WriteFile n b) = True"
| "engine_interaction (Exec a) = True"
| "engine_interaction (ReadFile n) = True"
| "engine_interaction (DeleteFile n) = True"
| "engine_interaction e = False"

fun is_broadcast :: "effect \<Rightarrow> bool" where
  "is_broadcast (Broadcast m) = True"
| "is_broadcast e = False"

text \<open>\<open>{ ok: false, error: e }\<close>, as every failure branch of the listener posts it.\<close>

definition failure :: "string \<Rightarrow> message" where
  "failure e =
     \<lparr>m_type = None, m_ok = False, m_filename = None, m_audioBytes = None, m_error = Some e\<rparr>"

definition completeMessage :: "string \<Rightarrow> byte list \<Rightarrow> message" where
  "completeMessage outName out =
     \<lparr>m_type = Some ''FFMPEG_TRANSCODE_COMPLETE'', m_ok = True, m_filename = Some outName,
      m_audioBytes = Some (Array_from out), m_error = None\<rparr>"

text \<open>
  \<^verbatim>\<open>
  const response = await fetch(srcUrl);
  if (!response.ok) {
    throw new Error(`Fetch failed: ${response.status} ${response.statusText}`);
  }
  const arrayBuffer = await response.arrayBuffer();
  \<close>
\<close>

definition fetchAudioBytes :: "job_env \<Rightarrow> string \<Rightarrow> js_error + byte list" where
  "fetchAudioBytes env url =
     (case fetchAudio env url of
        FetchThrows e \<Rightarrow> Inl e
      | FetchResponded rok status statusText body \<Rightarrow>
          if \<not> rok
          then Inl (Error (''Fetch failed: '' @ string_of_nat status @ '' '' @ statusText))
          else body)"

definition exec_args :: "string \<Rightarrow> string \<Rightarrow> string list" where
  "exec_args inName outName =
     [''-i'', inName, ''-vn'', ''-ac'', ''1'', ''-ar'', ''48000'', ''-sample_fmt'', ''s16'',
      ''-y'', outName]"

text \<open>The body of the second \<open>try\<close> up to \<open>readFile\<close>: the first call that throws ends it.\<close>

definition runEngine ::
  "job_env \<Rightarrow> string \<Rightarrow> string \<Rightarrow> byte list \<Rightarrow> effect list \<times> (js_error + byte list)" where
  "runEngine env inName outName audioBytes =
     (case loadFFmpegResult env of
        Inl e \<Rightarrow> ([LoadFFmpeg], Inl e)
      | Inr u \<Rightarrow>
     (case writeFileResult env of
        Inl e \<Rightarrow> ([LoadFFmpeg, WriteFile inName audioBytes], Inl e)
      | Inr u \<Rightarrow>
     (case execResult env of
        Inl e \<Rightarrow>
          ([LoadFFmpeg, WriteFile inName audioBytes, Exec (exec_args inName outName)], Inl e)
      | Inr u \<Rightarrow>
          ([LoadFFmpeg, WriteFile inName audioBytes, Exec (exec_args inName outName),
            ReadFile outName],
           readFileResult env))))"

text \<open>Cleanup after success: the second delete is skipped when the first throws.\<close>

definition cleanupAfterSuccess :: "job_env \<Rightarrow> string \<Rightarrow> string \<Rightarrow> effect list" where
  "cleanupAfterSuccess env inName outName =
     (if deleteFileThrows env inName then [DeleteFile inName]
      else [DeleteFile inName, DeleteFile outName])"

definition onPortMessage :: "job_env \<Rightarrow> request \<Rightarrow> effect list" where
  "onPortMessage env msg =
     (if r_type msg \<noteq> Some ''FFMPEG_TRANSCODE_TO_WAV''
      then [PortPost (failure ''Unknown message type'')]
      else case srcUrl msg of
        None \<Rightarrow> [PortPost (failure ''No audio URL provided'')]
      | Some url \<Rightarrow>
          if url = [] then [PortPost (failure ''No audio URL provided'')]
          else case fetchAudioBytes env url of
            Inl e \<Rightarrow> [Fetch url, PortPost (failure (''Failed to fetch audio: '' @ emessage e))]
          | Inr audioBytes \<Rightarrow>
              if length audioBytes = 0
              then [Fetch url, PortPost (failure ''No audio data received after fetch'')]
              else
                let inName = ''in.bin'';
                    outName = or_default (outBase msg) ''audio'' @ ''.wav''
                in case runEngine env inName outName audioBytes of
                  (effs, Inl e) \<Rightarrow>
                    Fetch url # effs @
                    [DeleteFile inName, DeleteFile outName,
                     PortPost (failure (ename e @ '': '' @ emessage e))]
                | (effs, Inr out) \<Rightarrow>
                    Fetch url # effs @ cleanupAfterSuccess env inName outName @
                    [Broadcast (completeMessage outName out), PortDisconnect])"

section \<open>background.js: waiting for the converted audio\<close>

datatype 'a promise = Pending | Fulfilled 'a | Rejected js_error

text \<open>Settling a promise a second time does nothing.\<close>

definition settle :: "'a promise \<Rightarrow> 'a promise \<Rightarrow> 'a promise" where
  "settle new old = (case old of Pending \<Rightarrow> new | Fulfilled v \<Rightarrow> old | Rejected e \<Rightarrow> old)"

record transcoded =
  t_ok :: bool
  t_filename :: "string option"
  arrayBuffer :: "byte list"

text \<open>
  \<open>ensureOffscreenAndReady\<close> first creates the offscreen document if there is none (an
  error there is ignored) and then pings it; only the ping decides how it ends.
  The answer to the \<open>OFFSCREEN_PING\<close> message: none within 5 seconds, a
  \<open>chrome.runtime.lastError\<close>, or a response (possibly \<open>undefined\<close>) with the fields
  \<open>ready\<close> and \<open>loaded\<close>; \<open>loaded\<close> is the engine's flag, false until its first load.
\<close>

record ping_reply =
  p_ready :: bool
  p_loaded :: bool

datatype ping_response = NoAnswer | LastError string | Answered "ping_reply option"

definition ensureOffscreenAndReady :: "ping_response \<Rightarrow> js_error + unit" where
  "ensureOffscreenAndReady p =
     (case p of
        NoAnswer \<Rightarrow> Inl (Error ''Offscreen document failed to respond within 5 seconds'')
      | LastError m \<Rightarrow> Inl (Error (''Offscreen ping failed: '' @ m))
      | Answered None \<Rightarrow> Inl (Error ''Offscreen document not ready'')
      | Answered (Some r) \<Rightarrow>
          if p_ready r then Inr () else Inl (Error ''Offscreen document not ready''))"

text \<open>
  The state of one call of \<open>transcodeToWav\<close>: the promise it returned, the time in
  milliseconds since the call, the time at which its \<open>setTimeout\<close> is due (\<open>None\<close> once
  cleared or fired), and whether its \<open>messageListener\<close> is registered on
  \<open>chrome.runtime.onMessage\<close>.
\<close>

record await_state =
  outcome :: "transcoded promise"
  now :: nat
  timer :: "nat option"
  listening :: bool

definition timeoutError :: js_error where
  "timeoutError = Error ''Transcoding timeout - FFmpeg load or conversion took too long''"

definition transcodeToWav :: "ping_response \<Rightarrow> string \<Rightarrow> string \<Rightarrow> await_state \<times> request list" where
  "transcodeToWav ping audioUrl baseName =
     (case ensureOffscreenAndReady ping of
        Inl e \<Rightarrow> (\<lparr>outcome = Rejected e, now = 0, timer = None, listening = False\<rparr>, [])
      | Inr u \<Rightarrow>
          (\<lparr>outcome = Pending, now = 0, timer = Some 90000, listening = True\<rparr>,
           [\<lparr>r_type = Some ''FFMPEG_TRANSCODE_TO_WAV'', srcUrl = Some audioUrl,
             outBase = Some baseName\<rparr>]))"

text \<open>The callback of \<open>setTimeout\<close>.\<close>

definition timeoutFires :: "await_state \<Rightarrow> await_state" where
  "timeoutFires st = st\<lparr>timer := None, outcome := settle (Rejected timeoutError) (outcome st)\<rparr>"

text \<open>What \<open>messageListener\<close> settles the promise with.\<close>

definition listenerResult :: "message \<Rightarrow> transcoded promise" where
  "listenerResult m =
     (if \<not> m_ok m then Rejected (Error (or_default (m_error m) ''Transcode failed''))
      else case m_audioBytes m of
        None \<Rightarrow> Rejected (Error ''Invalid audio data received from conversion'')
      | Some xs \<Rightarrow>
          if length xs = 0 then Rejected (Error ''Invalid audio data received from conversion'')
          else Fulfilled
            \<lparr>t_ok = True, t_filename = m_filename m, arrayBuffer = Uint8Array_from xs\<rparr>)"

definition messageListener :: "message \<Rightarrow> await_state \<Rightarrow> await_state" where
  "messageListener m st =
     (if listening st \<and> m_type m = Some ''FFMPEG_TRANSCODE_COMPLETE''
      then st\<lparr>timer := None, listening := False,
              outcome := settle (listenerResult m) (outcome st)\<rparr>
      else st)"

text \<open>Time passes: the timer fires once its due time is reached.\<close>

definition elapse :: "nat \<Rightarrow> await_state \<Rightarrow> await_state" where
  "elapse dt st =
     (let st' = st\<lparr>now := now st + dt\<rparr>
      in case timer st of
        None \<Rightarrow> st'
      | Some due \<Rightarrow> if due \<le> now st' then timeoutFires st' else st')"

datatype event = Elapse nat | Receive message

fun step :: "event \<Rightarrow> await_state \<Rightarrow> await_state" where
  "step (Elapse dt) st = elapse dt st"
| "step (Receive m) st = messageListener m st"

fun run :: "event list \<Rightarrow> await_state \<Rightarrow> await_state" where
  "run [] st = st"
| "run (e # es) st = run es (step e st)"

fun elapsed :: "event list \<Rightarrow> nat" where
  "elapsed [] = 0"
| "elapsed (Elapse dt # es) = dt + elapsed es"
| "elapsed (Receive m # es) = elapsed es"

fun is_completion :: "event \<Rightarrow> bool" where
  "is_completion (Receive m) = (m_type m = Some ''FFMPEG_TRANSCODE_COMPLETE'')"
| "is_completion (Elapse dt) = False"

text \<open>
  What reaches the service worker of an effect of the offscreen listener. A broadcast
  goes to \<open>messageListener\<close>; a message posted on the port reaches nothing, since the
  service worker registers no \<open>port.onMessage\<close> listener.
\<close>

fun deliver :: "effect \<Rightarrow> await_state \<Rightarrow> await_state" where
  "deliver (Broadcast m) st = messageListener m st"
| "deliver e st = st"

fun deliverAll :: "effect list \<Rightarrow> await_state \<Rightarrow> await_state" where
  "deliverAll [] st = st"
| "deliverAll (e # es) st = deliverAll es (deliver e st)"

text \<open>
  The service worker over several calls of \<open>transcodeToWav\<close>, one \<open>await_state\<close> per
  call in the order of the calls. Each call registers a listener of its own on
  \<open>chrome.runtime.onMessage\<close>, and a runtime message is handed to every registered
  listener: completion messages carry no job id that a listener could compare.
\<close>

datatype worker_event = Dispatch ping_response string string | Passes nat | Arrives message

fun worker_step :: "worker_event \<Rightarrow> await_state list \<Rightarrow> await_state list" where
  "worker_step (Dispatch ping audioUrl baseName) sts =
     sts @ [fst (transcodeToWav ping audioUrl baseName)]"
| "worker_step (Passes dt) sts = map (elapse dt) sts"
| "worker_step (Arrives m) sts = map (messageListener m) sts"

fun worker_run :: "worker_event list \<Rightarrow> await_state list \<Rightarrow> await_state list" where
  "worker_run [] sts = sts"
| "worker_run (e # es) sts = worker_run es (worker_step e sts)"

section \<open>offscreen.js: loading the engine once\<close>

text \<open>
  What the outside world answers during one load: the pre-flight fetch of each core file
  (\<open>response.ok\<close>, status, status text), the byte length of the fetched WASM file, its
  compilation, and \<open>ffmpeg.load\<close>, which resolves, rejects, or is still running when the
  60-second timer rejects.
\<close>

datatype head_outcome = HeadThrows js_error | HeadResponded bool nat string

datatype engine_load = LoadResolves | LoadRejects js_error | LoadHangs

record load_env =
  preflight :: "string \<Rightarrow> head_outcome"
  wasmByteLength :: "js_error + nat"
  wasmCompile :: "js_error + unit"
  ffmpegLoad :: engine_load

text \<open>\<open>USE_MULTITHREAD\<close> is false: there is no worker URL, and the core files are these.\<close>

definition coreURL :: string where
  "coreURL = ''vendor/ffmpeg/core/ffmpeg-core.js''"

definition wasmURL :: string where
  "wasmURL = ''vendor/ffmpeg/core/ffmpeg-core.wasm''"

definition coreUrls :: "(string \<times> string) list" where
  "coreUrls = [(''coreURL'', coreURL), (''wasmURL'', wasmURL)]"

fun preflightChecks :: "load_env \<Rightarrow> (string \<times> string) list \<Rightarrow> js_error + unit" where
  "preflightChecks env [] = Inr ()"
| "preflightChecks env ((name, url) # rest) =
     (if url = [] then preflightChecks env rest
      else case preflight env url of
        HeadThrows e \<Rightarrow>
          Inl (Error (''Core file '' @ name @ '' is not accessible: '' @ emessage e))
      | HeadResponded rok status statusText \<Rightarrow>
          if \<not> rok
          then Inl (Error (''Core file '' @ name @ '' is not accessible: '' @
                 ''HTTP '' @ string_of_nat status @ '': '' @ statusText))
          else preflightChecks env rest)"

definition precompileWasm :: "load_env \<Rightarrow> js_error + unit" where
  "precompileWasm env =
     (case wasmByteLength env of
        Inl e \<Rightarrow> Inl (Error (''WASM file is invalid: '' @ emessage e))
      | Inr n \<Rightarrow>
          if n = 0 then Inl (Error (''WASM file is invalid: '' @ ''WASM file is empty''))
          else case wasmCompile env of
            Inl e \<Rightarrow> Inl (Error (''WASM file is invalid: '' @ emessage e))
          | Inr u \<Rightarrow> Inr ())"

definition loadWithTimeout :: "load_env \<Rightarrow> js_error + unit" where
  "loadWithTimeout env =
     (case ffmpegLoad env of
        LoadResolves \<Rightarrow> Inr ()
      | LoadRejects e \<Rightarrow> Inl e
      | LoadHangs \<Rightarrow> Inl (Error ''FFmpeg load timeout after 60 seconds''))"

text \<open>The body of the async function whose promise is cached in \<open>loadPromise\<close>.\<close>

definition loadBody :: "load_env \<Rightarrow> js_error + unit" where
  "loadBody env =
     (case preflightChecks env coreUrls of
        Inl e \<Rightarrow> Inl e
      | Inr u \<Rightarrow>
     (case precompileWasm env of
        Inl e \<Rightarrow> Inl e
      | Inr u \<Rightarrow> loadWithTimeout env))"

text \<open>
  The module's state: \<open>loaded\<close> and \<open>loadPromise\<close> as in the source, a promise being
  named by the number of the load that made it. \<open>attempts\<close> counts the loads started,
  \<open>waiting\<close> lists the callers suspended at \<open>await loadPromise\<close> with the promise each
  awaits, and \<open>returned\<close> lists the calls of \<open>loadFFmpeg()\<close> that have finished, with what
  each caller saw (a return, or the error thrown at it).
\<close>

record engine_session =
  loaded :: bool
  loadPromise :: "nat option"
  attempts :: nat
  waiting :: "(nat \<times> nat) list"
  returned :: "(nat \<times> (js_error + unit)) list"

definition uninitialized :: engine_session where
  "uninitialized =
     \<lparr>loaded = False, loadPromise = None, attempts = 0, waiting = [], returned = []\<rparr>"

text \<open>Caller \<open>c\<close> calls \<open>loadFFmpeg()\<close>, which runs up to its first \<open>await\<close>.\<close>

definition loadFFmpeg :: "nat \<Rightarrow> engine_session \<Rightarrow> engine_session" where
  "loadFFmpeg c s =
     (if loaded s then s\<lparr>returned := returned s @ [(c, Inr ())]\<rparr>
      else case loadPromise s of
        Some p \<Rightarrow> s\<lparr>waiting := waiting s @ [(c, p)]\<rparr>
      | None \<Rightarrow>
          let p = Suc (attempts s)
          in s\<lparr>attempts := p, loadPromise := Some p, waiting := waiting s @ [(c, p)]\<rparr>)"

text \<open>
  The load in flight finishes in the world \<open>env\<close>: on success \<open>loaded\<close> is set, on failure
  \<open>loadPromise\<close> is reset to \<open>null\<close>; then the promise settles and every caller awaiting
  it resumes, in the order in which they began to wait.
\<close>

definition loadSettles :: "load_env \<Rightarrow> engine_session \<Rightarrow> engine_session" where
  "loadSettles env s =
     (case loadPromise s of
        None \<Rightarrow> s
      | Some p \<Rightarrow>
          if loaded s then s
          else
            let r = loadBody env
            in s\<lparr>loaded := (case r of Inl e \<Rightarrow> False | Inr u \<Rightarrow> True),
                 loadPromise := (case r of Inl e \<Rightarrow> None | Inr u \<Rightarrow> Some p),
                 waiting := filter (\<lambda>(c, q). q \<noteq> p) (waiting s),
                 returned := returned s @
                   map (\<lambda>(c, q). (c, r)) (filter (\<lambda>(c, q). q = p) (waiting s))\<rparr>)"

datatype load_event = Call nat | LoadSettles load_env

fun load_step :: "load_event \<Rightarrow> engine_session \<Rightarrow> engine_session" where
  "load_step (Call c) s = loadFFmpeg c s"
| "load_step (LoadSettles env) s = loadSettles env s"

fun load_run :: "load_event list \<Rightarrow> engine_session \<Rightarrow> engine_session" where
  "load_run [] s = s"
| "load_run (e # es) s = load_run es (load_step e s)"

section \<open>Content script: recognising audio files\<close>

definition audioMimeTypes :: "string list" where
  "audioMimeTypes =
     [''audio/mpeg'', ''audio/mp3'', ''audio/ogg'', ''audio/wav'', ''audio/wave'',
      ''audio/webm'', ''audio/mp4'', ''audio/aac'', ''audio/x-aac'', ''audio/flac'',
      ''audio/x-flac'', ''audio/opus'', ''audio/3gpp'', ''audio/amr'', ''audio/x-ms-wma'',
      ''video/ogg'', ''video/webm'']"

definition audioExtensions :: "string list" where
  "audioExtensions =
     [''ogg'', ''oga'', ''opus'', ''mp3'', ''wav'', ''wave'', ''webm'', ''m4a'', ''aac'',
      ''flac'', ''wma'', ''amr'', ''3gp'', ''3ga'']"

text \<open>
  \<^verbatim>\<open>/\.(ogg|oga|opus|mp3|wav|wave|webm|m4a|aac|flac|wma|amr|3gp|3ga)$/i.test(filename)\<close>:
  the search tries every position; at a position the pattern matches when a dot stands
  there and the rest of the string, up to its end, is one of the alternatives, letter case
  ignored.
\<close>

fun extensionRegexTest :: "string \<Rightarrow> bool" where
  "extensionRegexTest [] = False"
| "extensionRegexTest (c # cs) =
     ((c = CHR ''.'' \<and> toLowerCase cs \<in> set audioExtensions) \<or> extensionRegexTest cs)"

text \<open>
  \<^verbatim>\<open>
  function isAudioFile(filename, mimeType) {
    if (mimeType) {
      if (audioMimeTypes.includes(mimeType.toLowerCase())) return true;
    }
    if (filename && typeof filename === "string") {
      return /\.(...)$/i.test(filename);
    }
    return false;
  }
  \<close>
\<close>

definition isAudioFile :: "string option \<Rightarrow> string option \<Rightarrow> bool" where
  "isAudioFile filename mimeType =
     (if (case mimeType of
            None \<Rightarrow> False
          | Some m \<Rightarrow> m \<noteq> [] \<and> toLowerCase m \<in> set audioMimeTypes)
      then True
      else case filename of
        None \<Rightarrow> False
      | Some f \<Rightarrow> if f \<noteq> [] then extensionRegexTest f else False)"

text \<open>The spec's two conditions, in its words: the MIME type is in the audio allowlist;
  the file name's extension is in the allowed audio extension set.\<close>

definition mime_in_allowlist :: "string option \<Rightarrow> bool" where
  "mime_in_allowlist mimeType =
     (case mimeType of None \<Rightarrow> False | Some m \<Rightarrow> toLowerCase m \<in> set audioMimeTypes)"

definition has_audio_extension :: "string \<Rightarrow> bool" where
  "has_audio_extension name =
     (\<exists>ext \<in> set audioExtensions. suffix (CHR ''.'' # ext) (toLowerCase name))"

section \<open>Content script: discovery\<close>

record media_item =
  it_title :: "string option"
  audio_type :: "string option"

record imageinfo =
  ii_url :: "string option"
  ii_mime :: "string option"
  ii_extmetadata :: "(string \<times> string) list option"

text \<open>A page of the Action API's answer, with its \<open>imageinfo\<close> array (empty when absent).\<close>

record page =
  pg_title :: "string option"
  pg_imageinfo :: "imageinfo list"

record candidate =
  c_title :: "string option"
  c_url :: string
  c_filename :: string
  c_license :: "(string \<times> string) list"

text \<open>
  The answers of the network. The REST media list: the fetch throws, the status is not
  ok, the body is not JSON, or it has these items. The Action API: the fetch or the JSON
  parse throws, or the answer has these pages. \<open>decodeURIComponent\<close> is the platform's
  and throws a \<open>URIError\<close> on a malformed escape.
\<close>

datatype rest_reply =
    RestThrows js_error
  | RestNotOk
  | RestJsonThrows js_error
  | RestItems "media_item list"

datatype api_reply = ApiThrows js_error | ApiPages "page list"

record discovery_env =
  restMediaList :: "string \<Rightarrow> rest_reply"
  actionApiTitles :: "string option list \<Rightarrow> api_reply"
  actionApiGenerator :: "string \<Rightarrow> api_reply"
  decodeURIComponent :: "string \<Rightarrow> js_error + string"

datatype query =
    MediaListQuery string
  | ImageinfoQuery "string option list"
  | GeneratorQuery string

definition hasAudioType :: "media_item \<Rightarrow> bool" where
  "hasAudioType it = (truthy (audio_type it) \<and> audio_type it \<noteq> Some ''unknown'')"

definition listAudioFileTitles :: "discovery_env \<Rightarrow> string \<Rightarrow> js_error + string option list" where
  "listAudioFileTitles env pageTitle =
     (case restMediaList env pageTitle of
        RestThrows e \<Rightarrow> Inl e
      | RestNotOk \<Rightarrow> Inr []
      | RestJsonThrows e \<Rightarrow> Inl e
      | RestItems items \<Rightarrow>
          Inr (map it_title
            (filter (\<lambda>it. hasAudioType it \<or> isAudioFile (it_title it) None) items)))"

text \<open>\<open>pg?.imageinfo?.[0]\<close>.\<close>

definition firstImageinfo :: "page \<Rightarrow> imageinfo option" where
  "firstImageinfo pg = (case pg_imageinfo pg of [] \<Rightarrow> None | ii # rest \<Rightarrow> Some ii)"

text \<open>The test \<open>ii?.url && isAudioFile(ii.url, ii.mime)\<close> that lets an entry through.\<close>

definition accepted :: "page \<Rightarrow> bool" where
  "accepted pg =
     (case firstImageinfo pg of
        None \<Rightarrow> False
      | Some ii \<Rightarrow> truthy (ii_url ii) \<and> isAudioFile (ii_url ii) (ii_mime ii))"

text \<open>\<open>url.split("/").pop()\<close>: what follows the last slash.\<close>

definition lastSegment :: "string \<Rightarrow> string" where
  "lastSegment url = rev (takeWhile (\<lambda>c. c \<noteq> CHR ''/'') (rev url))"

definition makeCandidate :: "discovery_env \<Rightarrow> page \<Rightarrow> imageinfo \<Rightarrow> js_error + candidate" where
  "makeCandidate env pg ii =
     (let url = or_default (ii_url ii) []
      in case decodeURIComponent env (or_default (Some (lastSegment url)) ''audio'') of
        Inl e \<Rightarrow> Inl e
      | Inr name \<Rightarrow>
          Inr \<lparr>c_title = pg_title pg, c_url = url, c_filename = name,
               c_license = (case ii_extmetadata ii of None \<Rightarrow> [] | Some l \<Rightarrow> l)\<rparr>)"

text \<open>The loop over the pages, shared by \<open>resolveDirectUrls\<close> and the fallback.\<close>

fun collectAudio :: "discovery_env \<Rightarrow> page list \<Rightarrow> js_error + candidate list" where
  "collectAudio env [] = Inr []"
| "collectAudio env (pg # pgs) =
     (if accepted pg
      then case firstImageinfo pg of
        None \<Rightarrow> collectAudio env pgs
      | Some ii \<Rightarrow>
          (case makeCandidate env pg ii of
             Inl e \<Rightarrow> Inl e
           | Inr c \<Rightarrow>
               (case collectAudio env pgs of Inl e \<Rightarrow> Inl e | Inr out \<Rightarrow> Inr (c # out)))
      else collectAudio env pgs)"

definition resolveDirectUrls ::
  "discovery_env \<Rightarrow> string option list \<Rightarrow> query list \<times> (js_error + candidate list)" where
  "resolveDirectUrls env fileTitles =
     (if length fileTitles = 0 then ([], Inr [])
      else ([ImageinfoQuery fileTitles],
        case actionApiTitles env fileTitles of
          ApiThrows e \<Rightarrow> Inl e
        | ApiPages pages \<Rightarrow> collectAudio env pages))"

definition fallbackActionApiDiscovery ::
  "discovery_env \<Rightarrow> string \<Rightarrow> query list \<times> (js_error + candidate list)" where
  "fallbackActionApiDiscovery env pageTitle =
     ([GeneratorQuery pageTitle],
      case actionApiGenerator env pageTitle of
        ApiThrows e \<Rightarrow> Inl e
      | ApiPages pages \<Rightarrow> collectAudio env pages)"

text \<open>
  The List and Resolve stages of the main function: the queries they issue and the value
  of \<open>resolved\<close> before the fallback test (\<open>Inl\<close> when one of them threw).
  \<^verbatim>\<open>
  const files = await listAudioFileTitles(title);
  let resolved = [];
  if (files.length > 0) {
    resolved = await resolveDirectUrls(files);
  }
  \<close>
\<close>

definition listAndResolve ::
  "discovery_env \<Rightarrow> string \<Rightarrow> query list \<times> (js_error + candidate list)" where
  "listAndResolve env title =
     (case listAudioFileTitles env title of
        Inl e \<Rightarrow> ([MediaListQuery title], Inl e)
      | Inr files \<Rightarrow>
          if length files > 0
          then (MediaListQuery title # fst (resolveDirectUrls env files),
                snd (resolveDirectUrls env files))
          else ([MediaListQuery title], Inr []))"

text \<open>
  The main function: every query it issues, and the list handed to \<open>createUI\<close>
  (\<open>Inl\<close> when an exception reached the outer \<open>catch\<close>, which logs it).
  \<^verbatim>\<open>
  if (!title) return;
  try {
    ... List and Resolve ...
    if (resolved.length === 0) {
      resolved = await fallbackActionApiDiscovery(title);
    }
    if (resolved.length > 0) createUI(resolved);
  } catch (error) { console.error(...) }
  \<close>
\<close>

definition discover ::
  "discovery_env \<Rightarrow> string \<Rightarrow> query list \<times> (js_error + candidate list)" where
  "discover env title =
     (if title = [] then ([], Inr [])
      else case listAndResolve env title of
        (qs, Inl e) \<Rightarrow> (qs, Inl e)
      | (qs, Inr resolved) \<Rightarrow>
          if length resolved = 0
          then (qs @ fst (fallbackActionApiDiscovery env title),
                snd (fallbackActionApiDiscovery env title))
          else (qs, Inr resolved))"

fun is_fallback_query :: "query \<Rightarrow> bool" where
  "is_fallback_query (GeneratorQuery t) = True"
| "is_fallback_query q = False"

section \<open>Content script: downloading every file\<close>

text \<open>The \<open>DOWNLOAD_AUDIO\<close> message, and the deadline handed to \<open>safeSendMessage\<close>.\<close>

record download_request =
  d_url :: string
  d_originalFilename :: string
  d_mode :: string

definition timeoutMs :: "string \<Rightarrow> nat" where
  "timeoutMs mode = (if mode = ''convert'' then 120000 else 90000)"

text \<open>
  How \<open>safeSendMessage\<close> ends: it resolves with a response (\<open>None\<close> for a falsy one,
  otherwise the truthiness of \<open>response.ok\<close>), or it rejects (timeout, runtime error,
  invalidated extension context).
\<close>

datatype send_outcome = Resolves "bool option" | Rejects js_error

datatype batch_event = Sent download_request nat | Settled send_outcome

datatype feedback = DownloadedCount nat nat | Failed

record batch_state =
  successCount :: nat
  failCount :: nat
  trace :: "batch_event list"

definition downloadMessage :: "candidate \<Rightarrow> string \<Rightarrow> download_request" where
  "downloadMessage item mode =
     \<lparr>d_url = c_url item, d_originalFilename = c_filename item, d_mode = mode\<rparr>"

text \<open>\<open>response && response.ok\<close>.\<close>

fun succeeded :: "send_outcome \<Rightarrow> bool" where
  "succeeded (Resolves (Some b)) = b"
| "succeeded (Resolves None) = False"
| "succeeded (Rejects e) = False"

text \<open>
  \<^verbatim>\<open>
  for (const item of items) {
    try {
      const timeoutMs = mode === 'convert' ? 120000 : 90000;
      const response = await safeSendMessage({...}, { timeoutMs });
      if (response && response.ok) successCount++; else failCount++;
    } catch (error) { failCount++; }
  }
  \<close>
\<close>

fun batchLoop ::
  "(download_request \<Rightarrow> nat \<Rightarrow> send_outcome) \<Rightarrow> string \<Rightarrow> candidate list \<Rightarrow> batch_state \<Rightarrow> batch_state" where
  "batchLoop send mode [] st = st"
| "batchLoop send mode (item # items) st =
     (let msg = downloadMessage item mode;
          r = send msg (timeoutMs mode);
          st' = st\<lparr>trace := trace st @ [Sent msg (timeoutMs mode), Settled r]\<rparr>
      in batchLoop send mode items
           (if succeeded r then st'\<lparr>successCount := Suc (successCount st')\<rparr>
            else st'\<lparr>failCount := Suc (failCount st')\<rparr>))"

text \<open>The loop of the outer \<open>catch\<close>: original mode, default deadline, and the first
  rejection ends it.\<close>

fun fallbackLoop ::
  "(download_request \<Rightarrow> nat \<Rightarrow> send_outcome) \<Rightarrow> candidate list \<Rightarrow> batch_event list" where
  "fallbackLoop send [] = []"
| "fallbackLoop send (item # items) =
     (let msg = downloadMessage item ''original''; r = send msg 90000
      in Sent msg 90000 # Settled r #
         (case r of Rejects e \<Rightarrow> [] | Resolves v \<Rightarrow> fallbackLoop send items))"

text \<open>
  \<open>downloadAllFiles\<close>: \<open>stored\<close> is what reading the mode from \<open>chrome.storage.sync\<close>
  gives (\<open>Inl\<close> when it throws). The result is the final counters with the trace of
  requests, and the feedback shown on the button.
\<close>

definition downloadAllFiles ::
  "(js_error + string) \<Rightarrow> (download_request \<Rightarrow> nat \<Rightarrow> send_outcome) \<Rightarrow> candidate list
    \<Rightarrow> batch_state \<times> feedback" where
  "downloadAllFiles stored send items =
     (case stored of
        Inr mode \<Rightarrow>
          (let st = batchLoop send mode items \<lparr>successCount = 0, failCount = 0, trace = []\<rparr>
           in (st, if successCount st > 0 then DownloadedCount (successCount st) (length items)
                   else Failed))
      | Inl e \<Rightarrow>
          (\<lparr>successCount = 0, failCount = 0, trace = fallbackLoop send items\<rparr>, Failed))"

text \<open>
  For the batch: whether the request for an item fails (the send rejects, or the response
  is missing or not ok), and the two trace entries of one request, sent and settled.
\<close>

definition itemFails ::
  "(download_request \<Rightarrow> nat \<Rightarrow> send_outcome) \<Rightarrow> string \<Rightarrow> candidate \<Rightarrow> bool" where
  "itemFails send mode item = (\<not> succeeded (send (downloadMessage item mode) (timeoutMs mode)))"

definition exchange ::
  "(download_request \<Rightarrow> nat \<Rightarrow> send_outcome) \<Rightarrow> string \<Rightarrow> candidate \<Rightarrow> batch_event list" where
  "exchange send mode item =
     [Sent (downloadMessage item mode) (timeoutMs mode),
      Settled (send (downloadMessage item mode) (timeoutMs mode))]"

section \<open>Concrete inputs\<close>

text \<open>A job for a source URL that answers 404, and one that converts to four bytes.\<close>

definition req_ub :: request where
  "req_ub = \<lparr>r_type = Some ''FFMPEG_TRANSCODE_TO_WAV'', srcUrl = Some ''u'', outBase = Some ''b''\<rparr>"

definition env_404 :: job_env where
  "env_404 =
     \<lparr>fetchAudio = (\<lambda>u. FetchResponded False 404 ''Not Found'' (Inr [])),
      loadFFmpegResult = Inr (), writeFileResult = Inr (), execResult = Inr (),
      readFileResult = Inr [82, 73, 70, 70], deleteFileThrows = (\<lambda>n. False)\<rparr>"


text \<open>The offscreen document answers the ping; the engine is not yet loaded (cold) or is
  loaded (warm).\<close>

definition ping_cold :: ping_response where
  "ping_cold = Answered (Some \<lparr>p_ready = True, p_loaded = False\<rparr>)"

definition ping_warm :: ping_response where
  "ping_warm = Answered (Some \<lparr>p_ready = True, p_loaded = True\<rparr>)"

text \<open>A load in which every pre-flight check passes and \<open>ffmpeg.load\<close> never settles.\<close>

definition env_hang :: load_env where
  "env_hang =
     \<lparr>preflight = (\<lambda>u. HeadResponded True 200 ''OK''), wasmByteLength = Inr 1000,
      wasmCompile = Inr (), ffmpegLoad = LoadHangs\<rparr>"

text \<open>An Ogg file as the Action API reports it (MIME \<open>application/ogg\<close>), and an HTML page.\<close>

definition page_ogg :: page where
  "page_ogg =
     \<lparr>pg_title = Some ''File:En-us-water.ogg'',
      pg_imageinfo =
        [\<lparr>ii_url = Some ''https://upload.wikimedia.org/En-us-water.ogg'',
          ii_mime = Some ''application/ogg'', ii_extmetadata = None\<rparr>]\<rparr>"

definition html_info :: imageinfo where
  "html_info =
     \<lparr>ii_url = Some ''https://upload.wikimedia.org/page'', ii_mime = Some ''text/html'',
      ii_extmetadata = None\<rparr>"

definition page_html :: page where
  "page_html = \<lparr>pg_title = Some ''File:Page'', pg_imageinfo = [html_info]\<rparr>"

definition water_candidate :: candidate where
  "water_candidate =
     \<lparr>c_title = Some ''File:En-us-water.ogg'',
      c_url = ''https://upload.wikimedia.org/En-us-water.ogg'',
      c_filename = ''En-us-water.ogg'', c_license = []\<rparr>"

text \<open>A wiki whose media list fails (status not ok), and one whose media list names the
  Ogg file.\<close>

definition env_fallback :: discovery_env where
  "env_fallback =
     \<lparr>restMediaList = (\<lambda>t. RestNotOk), actionApiTitles = (\<lambda>ts. ApiPages []),
      actionApiGenerator = (\<lambda>t. ApiPages [page_ogg, page_html]),
      decodeURIComponent = Inr\<rparr>"

definition env_direct :: discovery_env where
  "env_direct =
     \<lparr>restMediaList =
        (\<lambda>t. RestItems [\<lparr>it_title = Some ''File:En-us-water.ogg'', audio_type = Some ''generic''\<rparr>]),
      actionApiTitles = (\<lambda>ts. ApiPages [page_ogg]),
      actionApiGenerator = (\<lambda>t. ApiPages [page_ogg, page_html]),
      decodeURIComponent = Inr\<rparr>"

text \<open>Three items; a background that fails the second; one that rejects every request.\<close>

definition item_a :: candidate where
  "item_a = \<lparr>c_title = Some ''File:a.ogg'', c_url = ''a'', c_filename = ''a.ogg'', c_license = []\<rparr>"

definition item_b :: candidate where
  "item_b = \<lparr>c_title = Some ''File:b.ogg'', c_url = ''b'', c_filename = ''b.ogg'', c_license = []\<rparr>"

definition item_c :: candidate where
  "item_c = \<lparr>c_title = Some ''File:c.ogg'', c_url = ''c'', c_filename = ''c.ogg'', c_license = []\<rparr>"

definition send_b_fails :: "download_request \<Rightarrow> nat \<Rightarrow> send_outcome" where
  "send_b_fails msg tmo =
     (if d_url msg = ''b'' then Resolves (Some False) else Resolves (Some True))"

definition send_rejects :: "download_request \<Rightarrow> nat \<Rightarrow> send_outcome" where
  "send_rejects msg tmo = Rejects (Error ''Extension context invalidated'')"

section \<open>The file-name and base64 helpers\<close>

text \<open>What the sanitizer does achieve: at most 255 code units, none of them one of the
  characters it replaces.\<close>

lemma length_sanitizeFilename: "length (sanitizeFilename s) \<le> 255"
  by (simp add: sanitizeFilename_def)

lemma set_collapse_ws: "set (collapse_ws s) \<subseteq> insert (CHR '' '') (set s)"
proof (induction s rule: collapse_ws.induct)
  case 1
  then show ?case by simp
next
  case (2 c cs)
  show ?case
  proof (cases "is_space c")
    case True
    have "set (dropWhile is_space cs) \<subseteq> set cs"
      by (rule set_dropWhileD [THEN subsetI])
    then show ?thesis using True 2 by auto
  next
    case False
    then show ?thesis using 2 by auto
  qed
qed

lemma set_trim: "set (trim s) \<subseteq> set s"
  unfolding trim_def
  by (metis set_dropWhileD set_rev subsetI)

lemma sanitizeFilename_no_invalid_chars:
  "set (sanitizeFilename s) \<inter> set invalid_chars = {}"
proof -
  have a: "set (replace_invalid s) \<inter> set invalid_chars = {}"
    by (auto simp: replace_invalid_def invalid_chars_def)
  have b: "set (sanitizeFilename s) \<subseteq> insert (CHR '' '') (set (replace_invalid s))"
  proof -
    have "set (sanitizeFilename s) \<subseteq>
        set (trim (strip_leading_dots (collapse_ws (replace_invalid s))))"
      unfolding sanitizeFilename_def by (rule set_take_subset)
    also have "\<dots> \<subseteq> set (strip_leading_dots (collapse_ws (replace_invalid s)))"
      by (rule set_trim)
    also have "\<dots> \<subseteq> set (collapse_ws (replace_invalid s))"
      unfolding strip_leading_dots_def by (rule set_dropWhileD [THEN subsetI])
    also have "\<dots> \<subseteq> insert (CHR '' '') (set (replace_invalid s))"
      by (rule set_collapse_ws)
    finally show ?thesis .
  qed
  have c: "CHR '' '' \<notin> set invalid_chars"
    by (simp add: invalid_chars_def)
  show ?thesis using a b c by auto
qed

lemma chunk_loop_eq: "chunk_loop bytes i binary = binary @ fromCharCode (drop i bytes)"
proof (induction bytes i binary rule: chunk_loop.induct)
  case (1 bytes i binary)
  show ?case
  proof (cases "i < length bytes")
    case True
    have split: "take chunkSize (drop i bytes) @ drop (i + chunkSize) bytes = drop i bytes"
      by (metis add.commute append_take_drop_id drop_drop)
    have "chunk_loop bytes i binary =
        (binary @ fromCharCode (subarray bytes i (i + chunkSize)))
          @ fromCharCode (drop (i + chunkSize) bytes)"
      using True "1.IH" by (subst chunk_loop.simps) simp
    also have "\<dots> = binary @ fromCharCode
        (take chunkSize (drop i bytes) @ drop (i + chunkSize) bytes)"
      by (simp add: fromCharCode_def subarray_def)
    finally show ?thesis
      by (simp only: split)
  next
    case False
    then show ?thesis
      by (subst chunk_loop.simps) (simp add: fromCharCode_def)
  qed
qed

text \<open>
  C4 (evaluation at the failing input). On \<open>" .a"\<close> the leading-dot strip runs before
  \<open>trim\<close>, so the dot behind the blank survives: the result starts with a dot, and
  sanitizing it a second time gives a different string.
\<close>

theorem sanitizeFilename_leading_dot_survives:
  "sanitizeFilename '' .a'' = ''.a'' \<and>
   sanitizeFilename (sanitizeFilename '' .a'') = ''a''"
  by (simp add: sanitizeFilename_def trim_def strip_leading_dots_def replace_invalid_def
      is_space_def invalid_chars_def)

text \<open>
  C10. The base64 encoder gives the same string on both of its paths: the chunked
  encoding (8192-byte chunks concatenated, then encoded) equals the direct single-call
  encoding, so the result of \<open>arrayBufferToBase64\<close> depends only on the bytes, neither
  on the 65536-byte threshold nor on whether the fast path failed.
\<close>

theorem arrayBufferToBase64_paths_agree:
  "base64_chunked bytes = base64_fast bytes \<and>
   arrayBufferToBase64 fastThrows bytes = btoa (fromCharCode bytes)"
  by (simp add: base64_chunked_def base64_fast_def arrayBufferToBase64_def chunk_loop_eq)

section \<open>One job in the offscreen document\<close>

lemma string_of_nat_404: "string_of_nat 404 = ''404''"
  by (simp add: string_of_nat.simps digit_char_def)

lemma fetch_404: "fetchAudioBytes env_404 ''u'' = Inl (Error ''Fetch failed: 404 Not Found'')"
  by (simp add: fetchAudioBytes_def env_404_def string_of_nat_404)

lemma job_404:
  "onPortMessage env_404 req_ub =
     [Fetch ''u'', PortPost (failure ''Failed to fetch audio: Fetch failed: 404 Not Found'')]"
  by (simp add: onPortMessage_def req_ub_def fetch_404 Error_def)


text \<open>Whatever the listener broadcasts is a success: no failure branch broadcasts.\<close>

lemma broadcast_only_on_success:
  assumes "Broadcast m \<in> set (onPortMessage env msg)"
  shows "m_ok m \<and> m_type m = Some ''FFMPEG_TRANSCODE_COMPLETE''"
  using assms
  by (auto simp: onPortMessage_def runEngine_def cleanupAfterSuccess_def completeMessage_def
      Let_def split: if_splits option.splits sum.splits)

text \<open>
  C8. If fetching the source bytes fails (the fetch throws, the status is not ok, or
  reading the body throws) or the payload is empty, the job ends with a failure message
  that names the fetch error, and before any engine interaction: the listener has
  fetched and posted that message, and has neither called \<open>loadFFmpeg\<close> nor written,
  executed, read or deleted anything in the engine.
\<close>

theorem fetch_failure_no_engine_interaction:
  assumes "r_type msg = Some ''FFMPEG_TRANSCODE_TO_WAV''"
    and "srcUrl msg = Some url" and "url \<noteq> []"
    and "fetchAudioBytes env url = Inl e \<or> fetchAudioBytes env url = Inr []"
  shows "onPortMessage env msg =
      [Fetch url, PortPost (failure (case fetchAudioBytes env url of
          Inl e \<Rightarrow> ''Failed to fetch audio: '' @ emessage e
        | Inr b \<Rightarrow> ''No audio data received after fetch''))] \<and>
    list_all (\<lambda>eff. \<not> engine_interaction eff) (onPortMessage env msg)"
  using assms by (auto simp: onPortMessage_def)

theorem fetch_failure_no_engine_interaction_witness:
  "onPortMessage env_404 req_ub =
     [Fetch ''u'', PortPost (failure ''Failed to fetch audio: Fetch failed: 404 Not Found'')] \<and>
   list_all (\<lambda>eff. \<not> engine_interaction eff) (onPortMessage env_404 req_ub)"
  using fetch_failure_no_engine_interaction
    [of req_ub "''u''" env_404 "Error ''Fetch failed: 404 Not Found''"]
  by (simp add: fetch_404 Error_def req_ub_def)

section \<open>The service worker's wait\<close>

lemma run_append: "run (xs @ ys) st = run ys (run xs st)"
  by (induction xs arbitrary: st) auto


lemma settled_step: "outcome st \<noteq> Pending \<Longrightarrow> outcome (step e st) = outcome st"
  by (cases e; cases "outcome st")
     (auto simp: elapse_def timeoutFires_def messageListener_def settle_def Let_def
       split: option.splits)

lemma settled_run: "outcome st \<noteq> Pending \<Longrightarrow> outcome (run evs st) = outcome st"
  by (induction evs arbitrary: st) (auto simp: settled_step)

lemma pending_run:
  assumes "outcome st = Pending" and "timer st = Some due" and "now st < due"
    and "\<forall>e \<in> set evs. \<not> is_completion e"
  shows "outcome (run evs st) =
    (if now st + elapsed evs < due then Pending else Rejected timeoutError)"
  using assms
proof (induction evs arbitrary: st)
  case Nil
  then show ?case by simp
next
  case (Cons e evs)
  show ?case
  proof (cases e)
    case (Elapse dt)
    show ?thesis
    proof (cases "due \<le> now st + dt")
      case True
      then have fired: "outcome (elapse dt st) = Rejected timeoutError"
        using Cons.prems by (simp add: elapse_def timeoutFires_def settle_def)
      then have "outcome (run evs (elapse dt st)) = Rejected timeoutError"
        using settled_run [of "elapse dt st" evs] by simp
      then show ?thesis using True Elapse by simp
    next
      case False
      then have st': "elapse dt st = st\<lparr>now := now st + dt\<rparr>"
        using Cons.prems by (simp add: elapse_def)
      have "outcome (run evs (elapse dt st)) =
          (if now (elapse dt st) + elapsed evs < due then Pending else Rejected timeoutError)"
        using Cons.prems False by (intro Cons.IH) (simp_all add: st')
      then show ?thesis using Elapse by (simp add: st' add.assoc)
    qed
  next
    case (Receive m)
    then have "step e st = st"
      using Cons.prems by (simp add: messageListener_def)
    then show ?thesis using Cons Receive by simp
  qed
qed

lemma pending_run_state:
  assumes "outcome st = Pending" and "timer st = Some due"
    and "\<forall>e \<in> set evs. \<not> is_completion e" and "now st + elapsed evs < due"
  shows "run evs st = st\<lparr>now := now st + elapsed evs\<rparr>"
  using assms
proof (induction evs arbitrary: st)
  case Nil
  then show ?case by simp
next
  case (Cons e evs)
  show ?case
  proof (cases e)
    case (Elapse dt)
    have st': "elapse dt st = st\<lparr>now := now st + dt\<rparr>"
      using Cons.prems Elapse by (simp add: elapse_def)
    have "run evs (elapse dt st) = (elapse dt st)\<lparr>now := now (elapse dt st) + elapsed evs\<rparr>"
      using Cons.prems Elapse by (intro Cons.IH) (simp_all add: st')
    then show ?thesis using Elapse by (simp add: st' add.assoc)
  next
    case (Receive m)
    then have "step e st = st"
      using Cons.prems by (simp add: messageListener_def)
    then show ?thesis using Cons Receive by simp
  qed
qed

lemma listenerResult_settled: "listenerResult m \<noteq> Pending"
  by (simp add: listenerResult_def split: option.splits)

lemma complete_type: "m_type (completeMessage n out) = Some ''FFMPEG_TRANSCODE_COMPLETE''"
  by (simp add: completeMessage_def)

lemma transcodeToWav_ready:
  assumes "ensureOffscreenAndReady ping = Inr ()"
  shows "fst (transcodeToWav ping audioUrl baseName) =
    \<lparr>outcome = Pending, now = 0, timer = Some 90000, listening = True\<rparr>"
  using assms by (simp add: transcodeToWav_def)

lemma ping_answers: "ensureOffscreenAndReady ping_cold = Inr ()"
  "ensureOffscreenAndReady ping_warm = Inr ()"
  by (simp_all add: ensureOffscreenAndReady_def ping_cold_def ping_warm_def)

lemma Uint8Array_from_Array_from: "Uint8Array_from (Array_from out) = out"
  by (simp add: Uint8Array_from_def Array_from_def map_idI)

lemma listenerResult_completeMessage:
  "listenerResult (completeMessage outName out) =
     (if out = [] then Rejected (Error ''Invalid audio data received from conversion'')
      else Fulfilled \<lparr>t_ok = True, t_filename = Some outName, arrayBuffer = out\<rparr>)"
  by (simp add: listenerResult_def completeMessage_def Uint8Array_from_Array_from)
     (simp add: Array_from_def)

text \<open>
  C1 (evaluation at the failing input). For a job whose source URL answers 404 the
  listener posts \<open>{ok: false, error}\<close> on the port and broadcasts nothing. Nothing
  reaches the service worker, whose promise stays pending with its timer armed, and is
  rejected only by the timer, 90 seconds after the call, with the timeout error instead
  of the job's error.
\<close>

theorem failed_job_is_not_broadcast:
  "onPortMessage env_404 req_ub =
     [Fetch ''u'', PortPost (failure ''Failed to fetch audio: Fetch failed: 404 Not Found'')] \<and>
   \<not> list_ex is_broadcast (onPortMessage env_404 req_ub) \<and>
   deliverAll (onPortMessage env_404 req_ub) (fst (transcodeToWav ping_warm ''u'' ''b'')) =
     \<lparr>outcome = Pending, now = 0, timer = Some 90000, listening = True\<rparr> \<and>
   outcome (elapse 90000
     (deliverAll (onPortMessage env_404 req_ub) (fst (transcodeToWav ping_warm ''u'' ''b'')))) =
     Rejected timeoutError"
  by (simp add: job_404 transcodeToWav_ready ping_answers elapse_def timeoutFires_def
      settle_def)

text \<open>
  C2 (as amended). When the offscreen document has answered the ping, the promise of
  \<open>transcodeToWav\<close> is decided by what arrives first. If no completion broadcast of any
  job arrives, it is pending for the first 90 seconds and rejected with the timeout error
  from then on, whether or not the engine was already loaded (the 120-second deadline is
  the caller's, on its whole convert-mode request). Completion messages carry no job id:
  the first one to arrive before the deadline, from whichever job, settles the promise
  with its content, and one arriving after the deadline leaves it rejected with the
  timeout error.
\<close>

theorem transcode_deadline_is_90s:
  assumes "ensureOffscreenAndReady ping = Inr ()"
    and "\<forall>e \<in> set evs. \<not> is_completion e"
  shows "outcome (run evs (fst (transcodeToWav ping audioUrl baseName))) =
      (if elapsed evs < 90000 then Pending else Rejected timeoutError) \<and>
    (90000 \<le> elapsed evs \<longrightarrow>
      outcome (run (evs @ Receive m # evs') (fst (transcodeToWav ping audioUrl baseName))) =
        Rejected timeoutError) \<and>
    (elapsed evs < 90000 \<and> m_type m = Some ''FFMPEG_TRANSCODE_COMPLETE'' \<longrightarrow>
      outcome (run (evs @ Receive m # evs') (fst (transcodeToWav ping audioUrl baseName))) =
        listenerResult m) \<and>
    timeoutMs ''convert'' = 120000"
proof -
  let ?st = "fst (transcodeToWav ping audioUrl baseName)"
  have st: "?st = \<lparr>outcome = Pending, now = 0, timer = Some 90000, listening = True\<rparr>"
    using assms(1) by (rule transcodeToWav_ready)
  have a: "outcome (run evs ?st) =
      (if elapsed evs < 90000 then Pending else Rejected timeoutError)"
    using pending_run [of ?st 90000 evs] assms(2) by (simp add: st)
  have b: "outcome (run (evs @ Receive m # evs') ?st) = Rejected timeoutError"
    if "90000 \<le> elapsed evs"
  proof -
    have "outcome (run evs ?st) = Rejected timeoutError"
      using a that by simp
    then show ?thesis
      using settled_run [of "run evs ?st" "Receive m # evs'"] by (simp add: run_append)
  qed
  have c: "outcome (run (evs @ Receive m # evs') ?st) = listenerResult m"
    if "elapsed evs < 90000" and "m_type m = Some ''FFMPEG_TRANSCODE_COMPLETE''"
  proof -
    have "run evs ?st = ?st\<lparr>now := now ?st + elapsed evs\<rparr>"
      using assms(2) that(1) by (intro pending_run_state [of ?st 90000]) (simp_all add: st)
    then have "outcome (messageListener m (run evs ?st)) = listenerResult m"
      using that(2) by (simp add: st messageListener_def settle_def)
    then show ?thesis
      using settled_run [of "messageListener m (run evs ?st)" evs']
        listenerResult_settled [of m]
      by (simp add: run_append)
  qed
  have d: "timeoutMs ''convert'' = 120000"
    by (simp add: timeoutMs_def)
  show ?thesis using a b c d by blast
qed

theorem transcode_deadline_is_90s_witness:
  "outcome (run [Elapse 60000, Elapse 29999] (fst (transcodeToWav ping_cold ''u'' ''b''))) =
     Pending \<and>
   outcome (run [Elapse 60000, Elapse 30000] (fst (transcodeToWav ping_warm ''u'' ''b''))) =
     Rejected timeoutError \<and>
   outcome (run ([Elapse 60000, Elapse 30000] @ Receive (completeMessage ''b.wav'' [1]) # [])
     (fst (transcodeToWav ping_warm ''u'' ''b''))) = Rejected timeoutError \<and>
   outcome (run ([Elapse 60000, Elapse 29999] @ Receive (completeMessage ''other.wav'' [7, 8]) # [])
     (fst (transcodeToWav ping_cold ''u'' ''b''))) =
     Fulfilled \<lparr>t_ok = True, t_filename = Some ''other.wav'', arrayBuffer = [7, 8]\<rparr>"
  using transcode_deadline_is_90s
      [of ping_cold "[Elapse 60000, Elapse 29999]" "''u''" "''b''"
        "completeMessage ''other.wav'' [7, 8]" "[]"]
    transcode_deadline_is_90s
      [of ping_warm "[Elapse 60000, Elapse 30000]" "''u''" "''b''"
        "completeMessage ''b.wav'' [1]" "[]"]
  by (simp add: ping_answers complete_type listenerResult_completeMessage)

text \<open>
  C2 (counterexample). The engine is not yet loaded, so the job is the first after its
  load, and yet the promise is already rejected 90 seconds after the call, not after 120.
  A completion broadcast arriving after that is not discarded without effect: it
  unregisters the listener that the timeout had left registered, and when the service
  worker has meanwhile dispatched a second job, the late broadcast of the first job
  fulfils the second job's promise with the first job's bytes.
\<close>

theorem first_job_deadline_is_not_120s:
  "outcome (run [Elapse 90000] (fst (transcodeToWav ping_cold ''u'' ''b''))) =
     Rejected timeoutError \<and>
   run [Elapse 90000, Receive (completeMessage ''b.wav'' [1])]
       (fst (transcodeToWav ping_cold ''u'' ''b'')) \<noteq>
     run [Elapse 90000] (fst (transcodeToWav ping_cold ''u'' ''b'')) \<and>
   worker_run
     [Dispatch ping_cold ''u'' ''b'', Passes 90000, Dispatch ping_warm ''u2'' ''b2'',
      Passes 1000, Arrives (completeMessage ''b.wav'' [7, 8])] [] =
     [\<lparr>outcome = Rejected timeoutError, now = 91000, timer = None, listening = False\<rparr>,
      \<lparr>outcome = Fulfilled \<lparr>t_ok = True, t_filename = Some ''b.wav'', arrayBuffer = [7, 8]\<rparr>,
       now = 1000, timer = None, listening = False\<rparr>]"
  by (simp add: transcodeToWav_ready ping_answers elapse_def timeoutFires_def settle_def
      messageListener_def complete_type listenerResult_completeMessage)



section \<open>Loading the engine once\<close>

lemma load_run_append: "load_run (xs @ ys) s = load_run ys (load_run xs s)"
  by (induction xs arbitrary: s) auto

lemma calls_while_loading:
  assumes "\<not> loaded s" and "loadPromise s = Some p"
  shows "load_run (map Call cs) s = s\<lparr>waiting := waiting s @ map (\<lambda>c. (c, p)) cs\<rparr>"
  using assms
proof (induction cs arbitrary: s)
  case Nil
  then show ?case by simp
next
  case (Cons c cs)
  let ?s1 = "loadFFmpeg c s"
  have s1: "?s1 = s\<lparr>waiting := waiting s @ [(c, p)]\<rparr>"
    using Cons.prems by (simp add: loadFFmpeg_def)
  have "load_run (map Call cs) ?s1 = ?s1\<lparr>waiting := waiting ?s1 @ map (\<lambda>c. (c, p)) cs\<rparr>"
    using Cons.prems by (intro Cons.IH) (simp_all add: s1)
  then show ?case by (simp add: s1)
qed

lemma first_call_starts_load:
  assumes "\<not> loaded s" and "loadPromise s = None"
  shows "loadFFmpeg c s =
    s\<lparr>attempts := Suc (attempts s), loadPromise := Some (Suc (attempts s)),
      waiting := waiting s @ [(c, Suc (attempts s))]\<rparr>"
  using assms by (simp add: loadFFmpeg_def Let_def)

lemma calls_from_idle:
  assumes "\<not> loaded s" and "loadPromise s = None" and "cs \<noteq> []"
  shows "load_run (map Call cs) s =
    s\<lparr>attempts := Suc (attempts s), loadPromise := Some (Suc (attempts s)),
      waiting := waiting s @ map (\<lambda>c. (c, Suc (attempts s))) cs\<rparr>"
proof -
  obtain c cs' where cs: "cs = c # cs'"
    using assms(3) by (cases cs) auto
  let ?p = "Suc (attempts s)"
  let ?s1 = "loadFFmpeg c s"
  have s1: "?s1 = s\<lparr>attempts := ?p, loadPromise := Some ?p, waiting := waiting s @ [(c, ?p)]\<rparr>"
    using assms(1,2) by (rule first_call_starts_load)
  have "load_run (map Call cs') ?s1 = ?s1\<lparr>waiting := waiting ?s1 @ map (\<lambda>c. (c, ?p)) cs'\<rparr>"
    using assms(1) by (intro calls_while_loading) (simp_all add: s1)
  then show ?thesis by (simp add: cs s1)
qed

lemma filter_same_promise:
  "filter (\<lambda>(c, q). q = p) (map (\<lambda>c. (c, p)) cs) = map (\<lambda>c. (c, p)) cs"
  "filter (\<lambda>(c, q). q \<noteq> p) (map (\<lambda>c. (c, p)) cs) = []"
  by (induction cs) auto

lemma loadBody_hang: "loadBody env_hang = Inl (Error ''FFmpeg load timeout after 60 seconds'')"
  by (simp add: loadBody_def env_hang_def coreUrls_def coreURL_def wasmURL_def
      precompileWasm_def loadWithTimeout_def)

text \<open>
  C6. Single-flight load: when the callers \<open>cs\<close> (at least one) call \<open>loadFFmpeg\<close> while
  the engine is uninitialized and the load then finishes, exactly one load was started,
  nobody is left waiting, and every caller saw the same outcome, the one of that load:
  all return, or the same error is thrown at all of them.
\<close>

theorem single_flight_load:
  assumes "cs \<noteq> []"
  shows "attempts (load_run (map Call cs @ [LoadSettles env]) uninitialized) = 1 \<and>
    returned (load_run (map Call cs @ [LoadSettles env]) uninitialized) =
      map (\<lambda>c. (c, loadBody env)) cs \<and>
    waiting (load_run (map Call cs @ [LoadSettles env]) uninitialized) = [] \<and>
    loaded (load_run (map Call cs @ [LoadSettles env]) uninitialized) = (loadBody env = Inr ())"
proof -
  have calls: "load_run (map Call cs) uninitialized =
      \<lparr>loaded = False, loadPromise = Some 1, attempts = 1,
       waiting = map (\<lambda>c. (c, 1)) cs, returned = []\<rparr>"
    using calls_from_idle [of uninitialized cs] assms by (simp add: uninitialized_def)
  show ?thesis
    by (cases "loadBody env")
       (simp_all add: load_run_append calls loadSettles_def Let_def filter_same_promise)
qed

theorem single_flight_load_witness:
  "[1, 2, 3] \<noteq> ([] :: nat list) \<and>
   attempts (load_run (map Call [1, 2, 3] @ [LoadSettles env_hang]) uninitialized) = 1 \<and>
   returned (load_run (map Call [1, 2, 3] @ [LoadSettles env_hang]) uninitialized) =
     [(1, Inl (Error ''FFmpeg load timeout after 60 seconds'')),
      (2, Inl (Error ''FFmpeg load timeout after 60 seconds'')),
      (3, Inl (Error ''FFmpeg load timeout after 60 seconds''))]"
  using single_flight_load [of "[1, 2, 3]" env_hang] by (simp add: loadBody_hang)

section \<open>Recognising audio and discovering it\<close>

lemma to_lower_dot: "to_lower c = CHR ''.'' \<longleftrightarrow> c = CHR ''.''"
  by (auto simp: to_lower_def upper_chars_def lower_chars_def split: option.splits if_splits)

lemma extensionRegexTest_iff: "extensionRegexTest s \<longleftrightarrow> has_audio_extension s"
proof (induction s)
  case Nil
  then show ?case by (simp add: has_audio_extension_def toLowerCase_def)
next
  case (Cons c cs)
  have "has_audio_extension (c # cs) \<longleftrightarrow>
      (\<exists>ext \<in> set audioExtensions. CHR ''.'' # ext = to_lower c # toLowerCase cs) \<or>
      has_audio_extension cs"
    by (auto simp: has_audio_extension_def toLowerCase_def suffix_Cons)
  also have "(\<exists>ext \<in> set audioExtensions. CHR ''.'' # ext = to_lower c # toLowerCase cs) \<longleftrightarrow>
      c = CHR ''.'' \<and> toLowerCase cs \<in> set audioExtensions"
    using to_lower_dot [of c] by auto
  finally show ?case using Cons.IH by simp
qed

lemma isAudioFile_iff:
  "isAudioFile (Some url) mime \<longleftrightarrow>
     mime_in_allowlist mime \<or> (url \<noteq> [] \<and> has_audio_extension url)"
  by (cases mime) (auto simp: isAudioFile_def mime_in_allowlist_def extensionRegexTest_iff
      toLowerCase_def audioMimeTypes_def)

lemma accepted_iff:
  "accepted pg \<longleftrightarrow>
    (\<exists>ii url. firstImageinfo pg = Some ii \<and> ii_url ii = Some url \<and> url \<noteq> [] \<and>
      (mime_in_allowlist (ii_mime ii) \<or> has_audio_extension url))"
  by (auto simp: accepted_def truthy_def isAudioFile_iff split: option.splits)

lemma collectAudio_sound:
  assumes "collectAudio env pages = Inr out" and "c \<in> set out"
  shows "\<exists>pg \<in> set pages. accepted pg \<and> c_title c = pg_title pg \<and>
     (\<exists>ii. firstImageinfo pg = Some ii \<and> ii_url ii = Some (c_url c))"
  using assms
proof (induction pages arbitrary: out)
  case Nil
  then show ?case by simp
next
  case (Cons pg pgs)
  show ?case
  proof (cases "accepted pg")
    case False
    then have "collectAudio env pgs = Inr out"
      using Cons.prems(1) by simp
    then show ?thesis
      using Cons.IH Cons.prems(2) by auto
  next
    case True
    then obtain ii url where
      ii: "firstImageinfo pg = Some ii" "ii_url ii = Some url" "url \<noteq> []"
      by (auto simp: accepted_iff)
    from Cons.prems(1) True ii obtain c0 out0 where
      c0: "makeCandidate env pg ii = Inr c0" and out0: "collectAudio env pgs = Inr out0"
      and out: "out = c0 # out0"
      by (auto split: sum.splits)
    have c0': "c_title c0 = pg_title pg \<and> c_url c0 = url"
      using c0 ii by (auto simp: makeCandidate_def or_default_def Let_def split: sum.splits)
    show ?thesis
    proof (cases "c = c0")
      case True
      then show ?thesis
        using c0' ii \<open>accepted pg\<close> by auto
    next
      case False
      then have "c \<in> set out0"
        using Cons.prems(2) out by simp
      then show ?thesis
        using Cons.IH [OF out0] by auto
    qed
  qed
qed

lemma text_html_not_allowed: "\<not> mime_in_allowlist (Some ''text/html'')"
  by (simp add: mime_in_allowlist_def toLowerCase_def to_lower_def upper_chars_def
      lower_chars_def audioMimeTypes_def)

lemma page_html_url_no_extension:
  "\<not> has_audio_extension ''https://upload.wikimedia.org/page''"
proof -
  have "\<not> extensionRegexTest ''https://upload.wikimedia.org/page''"
    by code_simp
  then show ?thesis
    by (simp add: extensionRegexTest_iff)
qed

lemma collect_ogg_html: "collectAudio env_fallback [page_ogg, page_html] = Inr [water_candidate]"
  by code_simp

text \<open>
  C3 (as amended). An entry is accepted exactly when its first image info has a
  non-empty URL and either its MIME type is in the audio allowlist or the URL's extension
  is in the allowed set, whether the MIME type is absent or present but not in the
  allowlist. Every candidate the resolver returns comes from such an entry, and an entry
  with MIME \<open>text/html\<close> and no matching extension is rejected.
\<close>

theorem resolver_accepts_audio_only:
  "(accepted pg \<longleftrightarrow>
      (\<exists>ii url. firstImageinfo pg = Some ii \<and> ii_url ii = Some url \<and> url \<noteq> [] \<and>
        (mime_in_allowlist (ii_mime ii) \<or> has_audio_extension url))) \<and>
   (collectAudio env pages = Inr out \<longrightarrow>
      (\<forall>c \<in> set out. \<exists>pg' \<in> set pages. accepted pg' \<and> c_title c = pg_title pg' \<and>
         (\<exists>ii. firstImageinfo pg' = Some ii \<and> ii_url ii = Some (c_url c)))) \<and>
   (\<forall>ii url. firstImageinfo pg = Some ii \<and> ii_url ii = Some url \<and>
      ii_mime ii = Some ''text/html'' \<and> \<not> has_audio_extension url \<longrightarrow> \<not> accepted pg)"
proof (intro conjI)
  show "accepted pg \<longleftrightarrow>
      (\<exists>ii url. firstImageinfo pg = Some ii \<and> ii_url ii = Some url \<and> url \<noteq> [] \<and>
        (mime_in_allowlist (ii_mime ii) \<or> has_audio_extension url))"
    by (rule accepted_iff)
  show "collectAudio env pages = Inr out \<longrightarrow>
      (\<forall>c \<in> set out. \<exists>pg' \<in> set pages. accepted pg' \<and> c_title c = pg_title pg' \<and>
         (\<exists>ii. firstImageinfo pg' = Some ii \<and> ii_url ii = Some (c_url c)))"
    using collectAudio_sound by blast
  show "\<forall>ii url. firstImageinfo pg = Some ii \<and> ii_url ii = Some url \<and>
      ii_mime ii = Some ''text/html'' \<and> \<not> has_audio_extension url \<longrightarrow> \<not> accepted pg"
    using text_html_not_allowed by (auto simp: accepted_iff)
qed

theorem resolver_accepts_audio_only_witness:
  "\<not> accepted page_html \<and>
   (\<exists>pg' \<in> set [page_ogg, page_html].
      accepted pg' \<and> c_title water_candidate = pg_title pg')"
proof -
  have html: "firstImageinfo page_html = Some html_info"
    "ii_url html_info = Some ''https://upload.wikimedia.org/page''"
    "ii_mime html_info = Some ''text/html''"
    by (simp_all add: page_html_def firstImageinfo_def html_info_def)
  note inst = resolver_accepts_audio_only
    [of page_html env_fallback "[page_ogg, page_html]" "[water_candidate]"]
  have "\<not> accepted page_html"
    using inst [THEN conjunct2, THEN conjunct2, THEN spec, THEN spec,
        of html_info "''https://upload.wikimedia.org/page''"]
      html page_html_url_no_extension
    by simp
  moreover have "\<forall>c \<in> set [water_candidate].
      \<exists>pg' \<in> set [page_ogg, page_html]. accepted pg' \<and> c_title c = pg_title pg' \<and>
         (\<exists>ii. firstImageinfo pg' = Some ii \<and> ii_url ii = Some (c_url c))"
    using inst [THEN conjunct2, THEN conjunct1] collect_ogg_html by blast
  then have "\<exists>pg' \<in> set [page_ogg, page_html].
      accepted pg' \<and> c_title water_candidate = pg_title pg'"
    by auto
  ultimately show ?thesis by simp
qed

text \<open>
  C3 (counterexample). The Ogg file's MIME type is present and is not in the allowlist,
  and the entry is accepted all the same, by its extension.
\<close>

theorem present_mime_falls_back_to_extension:
  "accepted page_ogg \<and>
   ii_mime (hd (pg_imageinfo page_ogg)) = Some ''application/ogg'' \<and>
   ''application/ogg'' \<notin> set audioMimeTypes"
  by code_simp

lemma listAndResolve_no_fallback:
  "\<not> list_ex is_fallback_query (fst (listAndResolve env title))"
  by (auto simp: listAndResolve_def resolveDirectUrls_def split: sum.splits)

lemma fallback_env_issues_fallback:
  "list_ex is_fallback_query (fst (discover env_fallback ''water''))"
  by code_simp

lemma direct_env_resolves:
  "snd (listAndResolve env_direct ''water'') = Inr [water_candidate]"
  by code_simp

text \<open>
  C5. The fallback query (the generator-style query) is issued only when the List and
  Resolve stages ended with zero candidates; when they yield at least one candidate no
  fallback query is issued and their result stands; and when they end with zero
  candidates for a non-empty title, exactly one fallback query is issued, for that title.
\<close>

theorem fallback_only_after_empty_list_and_resolve:
  "(list_ex is_fallback_query (fst (discover env title)) \<longrightarrow>
      title \<noteq> [] \<and> snd (listAndResolve env title) = Inr []) \<and>
   (\<forall>cs. snd (listAndResolve env title) = Inr cs \<and> cs \<noteq> [] \<longrightarrow>
      \<not> list_ex is_fallback_query (fst (discover env title)) \<and>
      (title \<noteq> [] \<longrightarrow> discover env title = listAndResolve env title)) \<and>
   (title \<noteq> [] \<and> snd (listAndResolve env title) = Inr [] \<longrightarrow>
      filter is_fallback_query (fst (discover env title)) = [GeneratorQuery title])"
proof -
  obtain qs r where lr: "listAndResolve env title = (qs, r)"
    by (cases "listAndResolve env title")
  have nf: "\<not> list_ex is_fallback_query qs" "filter is_fallback_query qs = []"
    using listAndResolve_no_fallback [of env title] lr
    by (auto simp: list_ex_iff filter_empty_conv)
  show ?thesis
    using nf
    by (cases r) (auto simp: discover_def lr fallbackActionApiDiscovery_def list_ex_iff
        filter_empty_conv)
qed

theorem fallback_only_after_empty_list_and_resolve_witness:
  "list_ex is_fallback_query (fst (discover env_fallback ''water'')) \<and>
   snd (listAndResolve env_fallback ''water'') = Inr [] \<and>
   filter is_fallback_query (fst (discover env_fallback ''water'')) = [GeneratorQuery ''water''] \<and>
   \<not> list_ex is_fallback_query (fst (discover env_direct ''water'')) \<and>
   discover env_direct ''water'' = listAndResolve env_direct ''water''"
  using fallback_only_after_empty_list_and_resolve [of env_fallback "''water''"]
    fallback_only_after_empty_list_and_resolve [of env_direct "''water''"]
    fallback_env_issues_fallback direct_env_resolves
  by (simp add: listAndResolve_no_fallback water_candidate_def)

section \<open>Downloading every file\<close>

lemma batchLoop_counts:
  "batchLoop send mode items st =
     \<lparr>successCount = successCount st + length (filter (\<lambda>i. \<not> itemFails send mode i) items),
      failCount = failCount st + length (filter (itemFails send mode) items),
      trace = trace st @ concat (map (exchange send mode) items)\<rparr>"
proof (induction items arbitrary: st)
  case Nil
  then show ?case by simp
next
  case (Cons item items)
  show ?case
    by (cases "succeeded (send (downloadMessage item mode) (timeoutMs mode))")
       (simp_all add: Cons.IH Let_def itemFails_def exchange_def)
qed

lemma length_filter_not:
  "length (filter (\<lambda>i. \<not> P i) xs) = length xs - length (filter P xs)"
  using sum_length_filter_compl [of P xs] by simp

lemma b_fails:
  "\<not> itemFails send_b_fails ''convert'' item_a"
  "itemFails send_b_fails ''convert'' item_b"
  "\<not> itemFails send_b_fails ''convert'' item_c"
  by (simp_all add: itemFails_def send_b_fails_def downloadMessage_def item_a_def item_b_def
      item_c_def)

text \<open>
  C7 (as amended). When the mode setting has been read, a batch of K items of which M
  fail is processed one request after the other in the order of the items, each request
  settled before the next is sent and none skipped after a failure; the counters end at
  exactly M failures and K - M successes, and the feedback shows K - M of K when at least
  one item succeeded and plain failure otherwise.
\<close>

theorem batch_counts_every_item:
  assumes "stored = Inr mode"
  shows "trace (fst (downloadAllFiles stored send items)) =
      concat (map (exchange send mode) items) \<and>
    failCount (fst (downloadAllFiles stored send items)) =
      length (filter (itemFails send mode) items) \<and>
    successCount (fst (downloadAllFiles stored send items)) =
      length items - length (filter (itemFails send mode) items) \<and>
    snd (downloadAllFiles stored send items) =
      (if length (filter (itemFails send mode) items) < length items
       then DownloadedCount (length items - length (filter (itemFails send mode) items))
              (length items)
       else Failed)"
proof -
  have le: "length (filter (itemFails send mode) items) \<le> length items"
    by (rule length_filter_le)
  show ?thesis
    using assms le
    by (auto simp: downloadAllFiles_def batchLoop_counts length_filter_not Let_def)
qed

theorem batch_counts_every_item_witness:
  "failCount (fst (downloadAllFiles (Inr ''convert'') send_b_fails [item_a, item_b, item_c])) = 1 \<and>
   successCount (fst (downloadAllFiles (Inr ''convert'') send_b_fails [item_a, item_b, item_c])) = 2 \<and>
   snd (downloadAllFiles (Inr ''convert'') send_b_fails [item_a, item_b, item_c]) =
     DownloadedCount 2 3 \<and>
   length (trace (fst (downloadAllFiles (Inr ''convert'') send_b_fails [item_a, item_b, item_c]))) = 6"
  using batch_counts_every_item
    [of "Inr ''convert''" "''convert''" send_b_fails "[item_a, item_b, item_c]"]
  by (simp add: b_fails exchange_def)

text \<open>
  C7 (counterexample). Reading the mode setting throws, so the counting loop never runs
  and the fallback loop sends the items in original mode; its first request is rejected
  and ends it: of the two items only the first is attempted, and the feedback is plain
  failure, with no counts.
\<close>

theorem batch_fallback_aborts_early:
  "downloadAllFiles (Inl (Error ''storage unavailable'')) send_rejects [item_a, item_b] =
     (\<lparr>successCount = 0, failCount = 0,
       trace = [Sent (downloadMessage item_a ''original'') 90000,
                Settled (Rejects (Error ''Extension context invalidated''))]\<rparr>,
      Failed)"
  by (simp add: downloadAllFiles_def send_rejects_def Let_def)

end
